theory Spec2Isabelle
  imports Main
begin

section \<open>The NFL team statistics service (\<^verbatim>\<open>src/app.py\<close>)\<close>

subsection \<open>Data model\<close>

text \<open>
  A team is one JSON object of \<^verbatim>\<open>assets/teams.json\<close>. The handlers read two keys,
  \<^verbatim>\<open>"name"\<close> (a string) and \<^verbatim>\<open>"points_scored"\<close> (a number, here a Python integer);
  whatever else the object carries is the field \<open>extras\<close>, of an arbitrary type \<open>'x\<close>.
  A Python string is the list of the bytes of its UTF-8 encoding, so that two strings
  are equal exactly when their byte lists are.
\<close>

record 'x team =
  name :: string
  points_scored :: int
  extras :: 'x

text \<open>
  The process-wide state the handlers read: the parsed content of the file at
  \<^verbatim>\<open>DATA_PATH\<close> (a top-level array of teams) and \<^verbatim>\<open>LOG_LEVEL\<close>.
\<close>

record 'x env =
  teams_json :: "'x team list"
  log_level :: string

text \<open>\<^verbatim>\<open>HTTPException(status_code=..., detail=...)\<close>.\<close>

datatype http_exception = HTTPException (status_code: nat) (detail: string)

text \<open>The dictionary returned by \<^verbatim>\<open>compare_teams\<close>.\<close>

record 'x comparison =
  team_a :: "'x team"
  team_b :: "'x team"
  higher_scoring_team :: string

text \<open>The dictionary returned by \<^verbatim>\<open>health_check\<close>.\<close>

record health =
  status :: string
  health_log_level :: string

subsection \<open>Case folding\<close>

text \<open>
  The handlers compare names through \<^verbatim>\<open>str.lower()\<close>, a built-in of Python that folds
  every cased letter of Unicode and may change the length of a string. It is not part of
  the repository, so every handler that calls it takes it as its first argument
  \<open>lower\<close>, a function from strings to strings of which nothing is assumed: what is
  proved below holds for Python's \<^verbatim>\<open>str.lower\<close> on all names, ASCII or not.
\<close>

subsection \<open>Handlers\<close>

text \<open>\<^verbatim>\<open>load_teams\<close>: \<^verbatim>\<open>json.load\<close> of the file at \<^verbatim>\<open>DATA_PATH\<close>.\<close>

definition load_teams :: "'x env \<Rightarrow> 'x team list" where
  "load_teams e = teams_json e"

definition health_check :: "'x env \<Rightarrow> health" where
  "health_check e = \<lparr>status = ''ok'', health_log_level = log_level e\<rparr>"

definition get_teams :: "'x env \<Rightarrow> 'x team list" where
  "get_teams e = load_teams e"

text \<open>
  The loop of \<^verbatim>\<open>get_team\<close>: the first team whose lowered name is the lowered query is
  returned; falling off the end of the list raises the 404.
\<close>

fun get_team_loop ::
  "(string \<Rightarrow> string) \<Rightarrow> 'x team list \<Rightarrow> string \<Rightarrow> http_exception + 'x team" where
  "get_team_loop lower [] team_name = Inl (HTTPException 404 ''Team not found'')"
| "get_team_loop lower (t # teams) team_name =
     (if lower (name t) = lower team_name then Inr t
      else get_team_loop lower teams team_name)"

definition get_team ::
  "(string \<Rightarrow> string) \<Rightarrow> 'x env \<Rightarrow> string \<Rightarrow> http_exception + 'x team" where
  "get_team lower e team_name =
     (let teams = load_teams e in get_team_loop lower teams team_name)"

text \<open>
  The local function \<^verbatim>\<open>find\<close> of \<^verbatim>\<open>compare_teams\<close>, with the list \<^verbatim>\<open>teams\<close> it closes
  over as an argument; Python's \<^verbatim>\<open>None\<close> is \<open>None\<close>.
\<close>

fun find_in :: "(string \<Rightarrow> string) \<Rightarrow> 'x team list \<Rightarrow> string \<Rightarrow> 'x team option" where
  "find_in lower [] nm = None"
| "find_in lower (t # teams) nm =
     (if lower (name t) = lower nm then Some t else find_in lower teams nm)"

text \<open>The \<^verbatim>\<open>if\<close>/\<^verbatim>\<open>elif\<close> chain of \<^verbatim>\<open>compare_teams\<close> that sets \<^verbatim>\<open>higher\<close>.\<close>

definition higher :: "(string \<Rightarrow> string) \<Rightarrow> 'x team \<Rightarrow> 'x team \<Rightarrow> string" where
  "higher lower a b =
     (if lower (name a) = lower (name b) then ''same team''
      else if points_scored a > points_scored b then name a
      else if points_scored a < points_scored b then name b
      else ''tie'')"

definition compare_teams ::
  "(string \<Rightarrow> string) \<Rightarrow> 'x env \<Rightarrow> string \<Rightarrow> string \<Rightarrow> http_exception + 'x comparison" where
  "compare_teams lower e qa qb =
     (let teams = load_teams e;
          a = find_in lower teams qa;
          b = find_in lower teams qb
      in case a of
           None \<Rightarrow> Inl (HTTPException 404 ''One or both teams not found'')
         | Some ta \<Rightarrow>
             (case b of
                None \<Rightarrow> Inl (HTTPException 404 ''One or both teams not found'')
              | Some tb \<Rightarrow>
                  Inr \<lparr>team_a = ta, team_b = tb, higher_scoring_team = higher lower ta tb\<rparr>))"

subsection \<open>Rewriting the extra fields\<close>

text \<open>
  To state that the handlers never look into the extra fields, \<open>map_extras f\<close> rewrites
  the extras of one team with an arbitrary function \<open>f\<close> and leaves \<open>name\<close> and
  \<open>points_scored\<close> alone; \<open>map_env\<close> does so for every team of the file and
  \<open>map_comparison\<close> for the two teams of a comparison.
\<close>

definition map_extras :: "('x \<Rightarrow> 'y) \<Rightarrow> 'x team \<Rightarrow> 'y team" where
  "map_extras f t = \<lparr>name = name t, points_scored = points_scored t, extras = f (extras t)\<rparr>"

definition map_env :: "('x \<Rightarrow> 'y) \<Rightarrow> 'x env \<Rightarrow> 'y env" where
  "map_env f e = \<lparr>teams_json = map (map_extras f) (teams_json e), log_level = log_level e\<rparr>"

definition map_comparison :: "('x \<Rightarrow> 'y) \<Rightarrow> 'x comparison \<Rightarrow> 'y comparison" where
  "map_comparison f r =
     \<lparr>team_a = map_extras f (team_a r), team_b = map_extras f (team_b r),
      higher_scoring_team = higher_scoring_team r\<rparr>"

subsection \<open>Sample data\<close>

text \<open>
  One folding function to run the handlers on: \<open>lower_sample\<close> is \<^verbatim>\<open>str.lower\<close> on
  names whose cased letters are ASCII (\<open>A\<close> to \<open>Z\<close>, codes 65 to 90, move 32 higher) or
  in the Latin-1 block (U+00C0 to U+00DE without U+00D7, in UTF-8 the byte 195 followed
  by a byte from 128 to 158 other than 151; the second byte moves 32 higher).
\<close>

definition lower_char :: "char \<Rightarrow> char" where
  "lower_char c =
     (let n = (of_char c :: nat)
      in if 65 \<le> n \<and> n \<le> 90 then char_of (n + 32) else c)"

fun lower_sample :: "string \<Rightarrow> string" where
  "lower_sample [] = []"
| "lower_sample [c] = [lower_char c]"
| "lower_sample (c # d # cs) =
     (let m = (of_char c :: nat); n = (of_char d :: nat)
      in if m = 195 \<and> 128 \<le> n \<and> n \<le> 158 \<and> n \<noteq> 151
         then c # char_of (n + 32) # lower_sample cs
         else lower_char c # lower_sample (d # cs))"

text \<open>
  The scenario of the specification, each record with one extra key, followed by a
  record that repeats the first name in another case.
\<close>

definition eagles :: "(string \<times> string) list team" where
  "eagles = \<lparr>name = ''Eagles'', points_scored = 30, extras = [(''city'', ''Philadelphia'')]\<rparr>"

definition cowboys :: "(string \<times> string) list team" where
  "cowboys = \<lparr>name = ''Cowboys'', points_scored = 24, extras = [(''city'', ''Dallas'')]\<rparr>"

definition giants :: "(string \<times> string) list team" where
  "giants = \<lparr>name = ''Giants'', points_scored = 24, extras = [(''city'', ''New York'')]\<rparr>"

definition eagles_dup :: "(string \<times> string) list team" where
  "eagles_dup = \<lparr>name = ''EAGLES'', points_scored = 10, extras = [(''city'', ''Boston'')]\<rparr>"

definition sample :: "(string \<times> string) list env" where
  "sample = \<lparr>teams_json = [eagles, cowboys, giants, eagles_dup], log_level = ''info''\<rparr>"

text \<open>
  A collection with names outside ASCII: a team named by the capital letter E with acute
  accent (U+00C9, bytes 195 137) and one named by the small letter (U+00E9, bytes 195 169).
\<close>

definition cap_e_acute :: string where
  "cap_e_acute = [CHR 0xC3, CHR 0x89]"

definition small_e_acute :: string where
  "small_e_acute = [CHR 0xC3, CHR 0xA9]"

definition team_cap :: "(string \<times> string) list team" where
  "team_cap = \<lparr>name = cap_e_acute, points_scored = 7, extras = []\<rparr>"

definition team_small :: "(string \<times> string) list team" where
  "team_small = \<lparr>name = small_e_acute, points_scored = 9, extras = []\<rparr>"

definition accented :: "(string \<times> string) list env" where
  "accented = \<lparr>teams_json = [team_cap, team_small], log_level = ''info''\<rparr>"

section \<open>Properties\<close>

subsection \<open>The two scanning loops\<close>

lemma find_in_find:
  "find_in lower ts q = List.find (\<lambda>t. lower (name t) = lower q) ts"
  by (induction ts) simp_all

lemma get_team_loop_find_in:
  "get_team_loop lower ts q =
     (case find_in lower ts q of
        None \<Rightarrow> Inl (HTTPException 404 ''Team not found'')
      | Some t \<Rightarrow> Inr t)"
  by (induction ts) simp_all

lemma find_in_None_iff:
  "find_in lower ts q = None \<longleftrightarrow> (\<forall>t\<in>set ts. lower (name t) \<noteq> lower q)"
  by (induction ts) auto

lemma find_in_Some_iff:
  "find_in lower ts q = Some t \<longleftrightarrow>
     (\<exists>i<length ts. ts ! i = t \<and> lower (name t) = lower q \<and>
        (\<forall>j<i. lower (name (ts ! j)) \<noteq> lower q))"
  unfolding find_in_find find_Some_iff by auto

lemma find_in_SomeD:
  "find_in lower ts q = Some t \<Longrightarrow> t \<in> set ts \<and> lower (name t) = lower q"
  by (induction ts) (auto split: if_splits)

lemma get_team_loop_Inr_iff:
  "get_team_loop lower ts q = Inr t \<longleftrightarrow> find_in lower ts q = Some t"
  by (simp add: get_team_loop_find_in split: option.splits)

lemma get_team_loop_Inl_iff:
  "get_team_loop lower ts q = Inl err \<longleftrightarrow>
     find_in lower ts q = None \<and> err = HTTPException 404 ''Team not found''"
  by (auto simp add: get_team_loop_find_in split: option.splits)

lemma compare_teams_Inr_iff:
  "compare_teams lower e qa qb = Inr r \<longleftrightarrow>
     (\<exists>a b. find_in lower (teams_json e) qa = Some a \<and> find_in lower (teams_json e) qb = Some b \<and>
        r = \<lparr>team_a = a, team_b = b, higher_scoring_team = higher lower a b\<rparr>)"
  by (auto simp add: compare_teams_def load_teams_def Let_def split: option.splits)

lemma compare_teams_Inl_iff:
  "compare_teams lower e qa qb = Inl err \<longleftrightarrow>
     (find_in lower (teams_json e) qa = None \<or> find_in lower (teams_json e) qb = None) \<and>
     err = HTTPException 404 ''One or both teams not found''"
  by (auto simp add: compare_teams_def load_teams_def Let_def split: option.splits)

lemma higher_swap: "higher lower b a = higher lower a b"
  by (auto simp add: higher_def)

lemma higher_same_team:
  "lower (name a) = lower (name b) \<Longrightarrow> higher lower a b = ''same team''"
  by (simp add: higher_def)

lemma higher_by_points:
  "lower (name a) \<noteq> lower (name b) \<Longrightarrow>
     higher lower a b =
       (if points_scored a > points_scored b then name a
        else if points_scored a < points_scored b then name b
        else ''tie'')"
  by (simp add: higher_def)

text \<open>
  Claim C1. When both query names resolve, through the case-insensitive scan, to teams whose
  stored names are equal once lowered, \<open>compare_teams\<close> answers with
  \<open>higher_scoring_team = ''same team''\<close>. Nothing is assumed about the scores: the test
  on the names comes first.
\<close>
theorem compare_teams_same_team:
  assumes "find_in lower (load_teams e) qa = Some a"
    and "find_in lower (load_teams e) qb = Some b"
    and "lower (name a) = lower (name b)"
  shows "compare_teams lower e qa qb =
           Inr \<lparr>team_a = a, team_b = b, higher_scoring_team = ''same team''\<rparr>"
  using assms by (simp add: compare_teams_def higher_same_team)

theorem compare_teams_same_team_witness:
  "find_in lower_sample (load_teams sample) ''Eagles'' = Some eagles \<and>
   find_in lower_sample (load_teams sample) ''eAGLES'' = Some eagles \<and>
   lower_sample (name eagles) = lower_sample (name eagles) \<and>
   compare_teams lower_sample sample ''Eagles'' ''eAGLES'' =
     Inr \<lparr>team_a = eagles, team_b = eagles, higher_scoring_team = ''same team''\<rparr> \<and>
   find_in lower_sample (load_teams accented) cap_e_acute = Some team_cap \<and>
   find_in lower_sample (load_teams accented) small_e_acute = Some team_cap \<and>
   compare_teams lower_sample accented cap_e_acute small_e_acute =
     Inr \<lparr>team_a = team_cap, team_b = team_cap, higher_scoring_team = ''same team''\<rparr>"
proof -
  have p: "find_in lower_sample (load_teams accented) cap_e_acute = Some team_cap"
    by code_simp
  have q: "find_in lower_sample (load_teams accented) small_e_acute = Some team_cap"
    by code_simp
  have a: "find_in lower_sample (load_teams sample) ''Eagles'' = Some eagles" by code_simp
  have b: "find_in lower_sample (load_teams sample) ''eAGLES'' = Some eagles" by code_simp
  have c: "lower_sample (name eagles) = lower_sample (name eagles)" by simp
  show ?thesis
    using a b p q compare_teams_same_team [OF a b c] compare_teams_same_team [OF p q refl]
    by simp
qed

text \<open>
  Claim C2. When the two names resolve to teams \<open>a\<close> and \<open>b\<close> whose lowered stored names
  differ, \<open>higher_scoring_team\<close> is the stored name of \<open>a\<close> if \<open>a\<close> scored more, the
  stored name of \<open>b\<close> if \<open>a\<close> scored less, and \<open>''tie''\<close> if the scores are equal.
\<close>
theorem compare_teams_by_points:
  assumes "find_in lower (load_teams e) qa = Some a"
    and "find_in lower (load_teams e) qb = Some b"
    and "lower (name a) \<noteq> lower (name b)"
  shows "\<exists>r. compare_teams lower e qa qb = Inr r \<and> team_a r = a \<and> team_b r = b \<and>
           (points_scored a > points_scored b \<longrightarrow> higher_scoring_team r = name a) \<and>
           (points_scored a < points_scored b \<longrightarrow> higher_scoring_team r = name b) \<and>
           (points_scored a = points_scored b \<longrightarrow> higher_scoring_team r = ''tie'')"
  using assms by (simp add: compare_teams_def higher_by_points)

theorem compare_teams_by_points_witness:
  "(find_in lower_sample (load_teams sample) ''eagles'' = Some eagles \<and>
    find_in lower_sample (load_teams sample) ''COWBOYS'' = Some cowboys \<and>
    find_in lower_sample (load_teams sample) ''giants'' = Some giants \<and>
    lower_sample (name eagles) \<noteq> lower_sample (name cowboys) \<and>
    lower_sample (name cowboys) \<noteq> lower_sample (name giants) \<and>
    points_scored eagles > points_scored cowboys \<and>
    points_scored cowboys = points_scored giants) \<and>
   (\<exists>r. compare_teams lower_sample sample ''eagles'' ''COWBOYS'' = Inr r \<and>
        higher_scoring_team r = ''Eagles'') \<and>
   (\<exists>r. compare_teams lower_sample sample ''COWBOYS'' ''eagles'' = Inr r \<and>
        higher_scoring_team r = ''Eagles'') \<and>
   (\<exists>r. compare_teams lower_sample sample ''COWBOYS'' ''giants'' = Inr r \<and>
        higher_scoring_team r = ''tie'')"
proof -
  have fe: "find_in lower_sample (load_teams sample) ''eagles'' = Some eagles" by code_simp
  have fc: "find_in lower_sample (load_teams sample) ''COWBOYS'' = Some cowboys" by code_simp
  have fg: "find_in lower_sample (load_teams sample) ''giants'' = Some giants" by code_simp
  have ec: "lower_sample (name eagles) \<noteq> lower_sample (name cowboys)" by code_simp
  have ce: "lower_sample (name cowboys) \<noteq> lower_sample (name eagles)" by code_simp
  have cg: "lower_sample (name cowboys) \<noteq> lower_sample (name giants)" by code_simp
  have pe: "points_scored eagles = 30" "name eagles = ''Eagles''"
    by (simp_all add: eagles_def)
  have pc: "points_scored cowboys = 24" by (simp add: cowboys_def)
  have pg: "points_scored giants = 24" by (simp add: giants_def)
  from compare_teams_by_points [OF fe fc ec]
  have 1: "\<exists>r. compare_teams lower_sample sample ''eagles'' ''COWBOYS'' = Inr r \<and>
             higher_scoring_team r = ''Eagles''"
    by (auto simp add: pe pc)
  from compare_teams_by_points [OF fc fe ce]
  have 2: "\<exists>r. compare_teams lower_sample sample ''COWBOYS'' ''eagles'' = Inr r \<and>
             higher_scoring_team r = ''Eagles''"
    by (auto simp add: pe pc)
  from compare_teams_by_points [OF fc fg cg]
  have 3: "\<exists>r. compare_teams lower_sample sample ''COWBOYS'' ''giants'' = Inr r \<and>
             higher_scoring_team r = ''tie''"
    by (auto simp add: pg pc)
  show ?thesis using fe fc fg ec cg 1 2 3 by (simp add: pe pc pg)
qed

text \<open>
  Claim C3. \<open>get_team\<close> returns \<open>t\<close> exactly when \<open>t\<close> stands at some position of the
  collection, its lowered name is the lowered query, and no team at an earlier position
  matches the query: the first match in collection order, also among teams that share a
  name up to case.
\<close>
theorem get_team_first_match:
  "get_team lower e q = Inr t \<longleftrightarrow>
     (\<exists>i<length (teams_json e). teams_json e ! i = t \<and> lower (name t) = lower q \<and>
        (\<forall>j<i. lower (name (teams_json e ! j)) \<noteq> lower q))"
  by (simp add: get_team_def load_teams_def get_team_loop_Inr_iff find_in_Some_iff)

theorem get_team_first_match_witness:
  "get_team lower_sample sample ''eagles'' = Inr eagles \<and>
   (\<exists>i<length (teams_json sample). teams_json sample ! i = eagles \<and>
      lower_sample (name eagles) = lower_sample ''eagles'' \<and>
      (\<forall>j<i. lower_sample (name (teams_json sample ! j)) \<noteq> lower_sample ''eagles'')) \<and>
   teams_json sample ! 3 = eagles_dup \<and> lower_sample (name eagles_dup) = lower_sample ''eagles'' \<and>
   get_team lower_sample sample ''eagles'' \<noteq> Inr eagles_dup \<and>
   get_team lower_sample accented small_e_acute = Inr team_cap \<and>
   (\<exists>i<length (teams_json accented). teams_json accented ! i = team_cap \<and>
      lower_sample (name team_cap) = lower_sample small_e_acute \<and>
      (\<forall>j<i. lower_sample (name (teams_json accented ! j)) \<noteq> lower_sample small_e_acute))"
proof -
  have h: "get_team lower_sample accented small_e_acute = Inr team_cap" by code_simp
  have g: "get_team lower_sample sample ''eagles'' = Inr eagles" by code_simp
  have d: "teams_json sample ! 3 = eagles_dup" by code_simp
  have l: "lower_sample (name eagles_dup) = lower_sample ''eagles''" by code_simp
  have n: "eagles \<noteq> eagles_dup" by code_simp
  show ?thesis
    using g d l n h get_team_first_match [of lower_sample sample "''eagles''" eagles]
      get_team_first_match [of lower_sample accented small_e_acute team_cap] by simp
qed

text \<open>
  Claim C4, amended. A stored team is returned for every query equal to its name up to case
  provided no team earlier in the collection has that name up to case.
\<close>
theorem get_team_first_stored:
  assumes "i < length (teams_json e)"
    and "\<forall>j<i. lower (name (teams_json e ! j)) \<noteq> lower (name (teams_json e ! i))"
    and "lower q = lower (name (teams_json e ! i))"
  shows "get_team lower e q = Inr (teams_json e ! i)"
proof -
  have "find_in lower (teams_json e) q = Some (teams_json e ! i)"
    unfolding find_in_Some_iff using assms by auto
  then show ?thesis
    by (simp add: get_team_def load_teams_def get_team_loop_Inr_iff)
qed

theorem get_team_first_stored_witness:
  "(1::nat) < length (teams_json sample) \<and>
   lower_sample (name (teams_json sample ! 0)) \<noteq> lower_sample (name (teams_json sample ! 1)) \<and>
   lower_sample ''cOwBoYs'' = lower_sample (name (teams_json sample ! 1)) \<and>
   teams_json sample ! 1 = cowboys \<and>
   get_team lower_sample sample ''cOwBoYs'' = Inr cowboys"
proof -
  have a: "(1::nat) < length (teams_json sample)" by (simp add: sample_def)
  have z: "lower_sample (name (teams_json sample ! 0)) \<noteq> lower_sample (name (teams_json sample ! 1))"
    by code_simp
  have b: "\<forall>j<1. lower_sample (name (teams_json sample ! j)) \<noteq> lower_sample (name (teams_json sample ! 1))"
    using z by simp
  have c: "lower_sample ''cOwBoYs'' = lower_sample (name (teams_json sample ! 1))" by code_simp
  have d: "teams_json sample ! 1 = cowboys" by code_simp
  show ?thesis using a z c d get_team_first_stored [OF a b c] by simp
qed

text \<open>
  The claim as first stated, for every stored team, fails on a collection where two teams
  share a name up to case: the later one is never returned, not even for its own name.
\<close>
theorem get_team_stored_counterexample:
  "eagles_dup \<in> set (teams_json sample) \<and>
   lower_sample ''EAGLES'' = lower_sample (name eagles_dup) \<and>
   get_team lower_sample sample ''EAGLES'' \<noteq> Inr eagles_dup"
proof -
  have a: "eagles_dup \<in> set (teams_json sample)" by (simp add: sample_def)
  have b: "lower_sample ''EAGLES'' = lower_sample (name eagles_dup)" by (simp add: eagles_dup_def)
  have c: "get_team lower_sample sample ''EAGLES'' = Inr eagles" by code_simp
  have n: "eagles \<noteq> eagles_dup" by code_simp
  show ?thesis using a b c n by simp
qed

lemma find_in_None_no_match:
  "find_in lower (teams_json e) q = None \<longleftrightarrow> \<not> (\<exists>t\<in>set (teams_json e). lower (name t) = lower q)"
  by (simp add: find_in_None_iff)

text \<open>
  Claim C5. \<open>compare_teams\<close> fails exactly when one of the two names has no
  case-insensitive match in the collection; the failure is always the 404 with detail
  \<open>''One or both teams not found''\<close>, and a result is produced exactly when both names
  have a match.
\<close>
theorem compare_teams_not_found_iff:
  "((\<exists>err. compare_teams lower e qa qb = Inl err) \<longleftrightarrow>
      \<not> (\<exists>t\<in>set (teams_json e). lower (name t) = lower qa) \<or>
      \<not> (\<exists>t\<in>set (teams_json e). lower (name t) = lower qb)) \<and>
   (compare_teams lower e qa qb = Inl err \<longrightarrow>
      err = HTTPException 404 ''One or both teams not found'') \<and>
   ((\<exists>r. compare_teams lower e qa qb = Inr r) \<longleftrightarrow>
      (\<exists>t\<in>set (teams_json e). lower (name t) = lower qa) \<and>
      (\<exists>t\<in>set (teams_json e). lower (name t) = lower qb))"
proof (intro conjI)
  show "(\<exists>err. compare_teams lower e qa qb = Inl err) \<longleftrightarrow>
      \<not> (\<exists>t\<in>set (teams_json e). lower (name t) = lower qa) \<or>
      \<not> (\<exists>t\<in>set (teams_json e). lower (name t) = lower qb)"
    by (simp add: compare_teams_Inl_iff find_in_None_no_match)
  show "compare_teams lower e qa qb = Inl err \<longrightarrow>
      err = HTTPException 404 ''One or both teams not found''"
    by (simp add: compare_teams_Inl_iff)
  have "(\<exists>r. compare_teams lower e qa qb = Inr r) \<longleftrightarrow>
        find_in lower (teams_json e) qa \<noteq> None \<and> find_in lower (teams_json e) qb \<noteq> None"
    by (auto simp add: compare_teams_Inr_iff)
  then show "(\<exists>r. compare_teams lower e qa qb = Inr r) \<longleftrightarrow>
      (\<exists>t\<in>set (teams_json e). lower (name t) = lower qa) \<and>
      (\<exists>t\<in>set (teams_json e). lower (name t) = lower qb)"
    by (simp add: find_in_None_no_match)
qed

theorem compare_teams_not_found_iff_witness:
  "\<not> (\<exists>t\<in>set (teams_json sample). lower_sample (name t) = lower_sample ''Raiders'') \<and>
   (\<exists>t\<in>set (teams_json sample). lower_sample (name t) = lower_sample ''eagles'') \<and>
   (\<exists>t\<in>set (teams_json sample). lower_sample (name t) = lower_sample ''Giants'') \<and>
   compare_teams lower_sample sample ''eagles'' ''Raiders'' =
     Inl (HTTPException 404 ''One or both teams not found'') \<and>
   compare_teams lower_sample sample ''Raiders'' ''eagles'' =
     Inl (HTTPException 404 ''One or both teams not found'') \<and>
   (\<exists>r. compare_teams lower_sample sample ''eagles'' ''Giants'' = Inr r) \<and>
   (\<exists>t\<in>set (teams_json accented). lower_sample (name t) = lower_sample small_e_acute) \<and>
   (\<exists>r. compare_teams lower_sample accented small_e_acute small_e_acute = Inr r)"
proof -
  have s: "compare_teams lower_sample accented small_e_acute small_e_acute =
     Inr \<lparr>team_a = team_cap, team_b = team_cap, higher_scoring_team = ''same team''\<rparr>"
    by code_simp
  have ms: "\<exists>t\<in>set (teams_json accented). lower_sample (name t) = lower_sample small_e_acute"
    using s compare_teams_not_found_iff [of lower_sample accented small_e_acute small_e_acute]
    by simp
  have r: "compare_teams lower_sample sample ''eagles'' ''Raiders'' =
     Inl (HTTPException 404 ''One or both teams not found'')" by code_simp
  have r': "compare_teams lower_sample sample ''Raiders'' ''eagles'' =
     Inl (HTTPException 404 ''One or both teams not found'')" by code_simp
  have g: "compare_teams lower_sample sample ''eagles'' ''Giants'' =
     Inr \<lparr>team_a = eagles, team_b = giants, higher_scoring_team = ''Eagles''\<rparr>"
    by code_simp
  have m: "(\<exists>t\<in>set (teams_json sample). lower_sample (name t) = lower_sample ''eagles'') \<and>
           (\<exists>t\<in>set (teams_json sample). lower_sample (name t) = lower_sample ''Giants'')"
    using g compare_teams_not_found_iff [of lower_sample sample "''eagles''" "''Giants''"] by simp
  have n: "\<not> (\<exists>t\<in>set (teams_json sample). lower_sample (name t) = lower_sample ''Raiders'')"
    using r m compare_teams_not_found_iff [of lower_sample sample "''eagles''" "''Raiders''"] by simp
  show ?thesis using r r' g m n s ms by simp
qed

text \<open>
  Claim C6. \<open>get_team\<close> fails exactly when no team of the collection has a stored name
  equal to the query up to case, and the failure is always the 404 with detail
  \<open>''Team not found''\<close>.
\<close>
theorem get_team_not_found_iff:
  "((\<exists>err. get_team lower e q = Inl err) \<longleftrightarrow>
      \<not> (\<exists>t\<in>set (teams_json e). lower (name t) = lower q)) \<and>
   (get_team lower e q = Inl err \<longrightarrow> err = HTTPException 404 ''Team not found'')"
  by (simp add: get_team_def load_teams_def get_team_loop_Inl_iff find_in_None_no_match)

theorem get_team_not_found_iff_witness:
  "\<not> (\<exists>t\<in>set (teams_json sample). lower_sample (name t) = lower_sample ''Raiders'') \<and>
   get_team lower_sample sample ''Raiders'' = Inl (HTTPException 404 ''Team not found'') \<and>
   (\<exists>t\<in>set (teams_json sample). lower_sample (name t) = lower_sample ''cowboys'') \<and>
   get_team lower_sample sample ''cowboys'' = Inr cowboys \<and>
   (\<exists>t\<in>set (teams_json accented). lower_sample (name t) = lower_sample small_e_acute) \<and>
   get_team lower_sample accented small_e_acute = Inr team_cap"
proof -
  have s: "get_team lower_sample accented small_e_acute = Inr team_cap" by code_simp
  have ms: "\<exists>t\<in>set (teams_json accented). lower_sample (name t) = lower_sample small_e_acute"
    using s get_team_not_found_iff [of lower_sample accented small_e_acute] by simp
  have r: "get_team lower_sample sample ''Raiders'' = Inl (HTTPException 404 ''Team not found'')"
    by code_simp
  have c: "get_team lower_sample sample ''cowboys'' = Inr cowboys" by code_simp
  have mr: "\<not> (\<exists>t\<in>set (teams_json sample). lower_sample (name t) = lower_sample ''Raiders'')"
    using r get_team_not_found_iff [of lower_sample sample "''Raiders''"] by simp
  have mc: "\<exists>t\<in>set (teams_json sample). lower_sample (name t) = lower_sample ''cowboys''"
    using c get_team_not_found_iff [of lower_sample sample "''cowboys''"] by simp
  show ?thesis using r c mr mc s ms by simp
qed

text \<open>
  Claim C7. \<open>get_teams\<close> returns the loaded collection itself: the same list, so the same
  records, each once, in the same order.
\<close>
theorem get_teams_is_collection: "get_teams e = teams_json e"
  by (simp add: get_teams_def load_teams_def)

text \<open>
  Claim C8. The local \<open>find\<close> of \<open>compare_teams\<close> and the scan of \<open>get_team\<close> agree on
  every collection and query: \<open>find\<close> returns a team exactly when \<open>get_team\<close> returns
  that team, and returns \<open>None\<close> exactly when \<open>get_team\<close> raises its 404.
\<close>
theorem find_in_get_team:
  "(find_in lower (load_teams e) q = Some t \<longleftrightarrow> get_team lower e q = Inr t) \<and>
   (find_in lower (load_teams e) q = None \<longleftrightarrow>
      get_team lower e q = Inl (HTTPException 404 ''Team not found'')) \<and>
   (find_in lower (load_teams e) q = None \<longleftrightarrow> (\<exists>err. get_team lower e q = Inl err))"
  by (simp add: get_team_def get_team_loop_Inr_iff get_team_loop_Inl_iff)

theorem find_in_get_team_witness:
  "find_in lower_sample (load_teams sample) ''GIANTS'' = Some giants \<and>
   get_team lower_sample sample ''GIANTS'' = Inr giants \<and>
   find_in lower_sample (load_teams sample) ''Jets'' = None \<and>
   get_team lower_sample sample ''Jets'' = Inl (HTTPException 404 ''Team not found'')"
proof -
  have a: "find_in lower_sample (load_teams sample) ''GIANTS'' = Some giants" by code_simp
  have b: "find_in lower_sample (load_teams sample) ''Jets'' = None" by code_simp
  show ?thesis
    using a b find_in_get_team [of lower_sample sample "''GIANTS''" giants]
      find_in_get_team [of lower_sample sample "''Jets''"] by simp
qed


lemma name_map_extras [simp]: "name (map_extras f t) = name t"
  by (simp add: map_extras_def)

lemma points_scored_map_extras [simp]: "points_scored (map_extras f t) = points_scored t"
  by (simp add: map_extras_def)

lemma higher_map_extras: "higher lower (map_extras f a) (map_extras f b) = higher lower a b"
  by (simp add: higher_def)

lemma find_in_map_extras:
  "find_in lower (map (map_extras f) ts) q = map_option (map_extras f) (find_in lower ts q)"
  by (induction ts) simp_all

lemma get_team_loop_map_extras:
  "get_team_loop lower (map (map_extras f) ts) q = map_sum id (map_extras f) (get_team_loop lower ts q)"
  by (induction ts) simp_all

lemma get_team_map_env:
  "get_team lower (map_env f e) q = map_sum id (map_extras f) (get_team lower e q)"
  by (simp add: get_team_def load_teams_def map_env_def get_team_loop_map_extras)

lemma compare_teams_map_env:
  "compare_teams lower (map_env f e) qa qb = map_sum id (map_comparison f) (compare_teams lower e qa qb)"
  by (simp add: compare_teams_def load_teams_def map_env_def find_in_map_extras
      higher_map_extras map_comparison_def split: option.splits)

lemma get_team_stored: "get_team lower e q = Inr t \<Longrightarrow> t \<in> set (teams_json e)"
  by (simp add: get_team_def load_teams_def get_team_loop_Inr_iff find_in_SomeD)

lemma compare_teams_stored:
  "compare_teams lower e qa qb = Inr r \<Longrightarrow>
     team_a r \<in> set (teams_json e) \<and> team_b r \<in> set (teams_json e)"
  by (auto simp add: compare_teams_Inr_iff dest: find_in_SomeD)

text \<open>
  Claim C9. Every record a successful handler returns is a record of the collection, with
  all its fields as stored; and the handlers do not read the extra fields: rewriting the
  extras of every stored team with any function \<open>f\<close> changes the answers of
  \<open>get_teams\<close>, \<open>get_team\<close> and \<open>compare_teams\<close> only by the same rewriting of the
  extras of the returned records (errors and \<open>higher_scoring_team\<close> stay as they are).
\<close>
theorem extras_pass_through:
  "get_teams e = teams_json e \<and>
   (get_team lower e q = Inr t \<longrightarrow> t \<in> set (teams_json e)) \<and>
   (compare_teams lower e qa qb = Inr r \<longrightarrow>
      team_a r \<in> set (teams_json e) \<and> team_b r \<in> set (teams_json e)) \<and>
   get_teams (map_env f e) = map (map_extras f) (get_teams e) \<and>
   get_team lower (map_env f e) q = map_sum id (map_extras f) (get_team lower e q) \<and>
   compare_teams lower (map_env f e) qa qb =
     map_sum id (map_comparison f) (compare_teams lower e qa qb)"
proof (intro conjI)
  show "get_teams e = teams_json e"
    by (simp add: get_teams_def load_teams_def)
  show "get_team lower e q = Inr t \<longrightarrow> t \<in> set (teams_json e)"
    by (simp add: get_team_stored)
  show "compare_teams lower e qa qb = Inr r \<longrightarrow>
      team_a r \<in> set (teams_json e) \<and> team_b r \<in> set (teams_json e)"
    using compare_teams_stored by blast
  show "get_teams (map_env f e) = map (map_extras f) (get_teams e)"
    by (simp add: get_teams_def load_teams_def map_env_def)
  show "get_team lower (map_env f e) q = map_sum id (map_extras f) (get_team lower e q)"
    by (rule get_team_map_env)
  show "compare_teams lower (map_env f e) qa qb =
     map_sum id (map_comparison f) (compare_teams lower e qa qb)"
    by (rule compare_teams_map_env)
qed

theorem extras_pass_through_witness:
  "get_team lower_sample sample ''giants'' = Inr giants \<and> giants \<in> set (teams_json sample) \<and>
   extras giants = [(''city'', ''New York'')] \<and>
   compare_teams lower_sample sample ''giants'' ''eagles'' =
     Inr \<lparr>team_a = giants, team_b = eagles, higher_scoring_team = ''Eagles''\<rparr> \<and>
   eagles \<in> set (teams_json sample) \<and>
   get_team lower_sample (map_env length sample) ''giants'' = Inr (map_extras length giants) \<and>
   extras (map_extras length giants) = 1"
proof -
  have g: "get_team lower_sample sample ''giants'' = Inr giants" by code_simp
  have c: "compare_teams lower_sample sample ''giants'' ''eagles'' =
     Inr \<lparr>team_a = giants, team_b = eagles, higher_scoring_team = ''Eagles''\<rparr>"
    by code_simp
  have x: "extras giants = [(''city'', ''New York'')]" by (simp add: giants_def)
  have y: "extras (map_extras length giants) = 1" by (simp add: giants_def map_extras_def)
  show ?thesis
    using g c x y
      extras_pass_through [of sample lower_sample "''giants''" giants "''giants''" "''eagles''"
        "\<lparr>team_a = giants, team_b = eagles, higher_scoring_team = ''Eagles''\<rparr>" length]
    by simp
qed

text \<open>
  Claim C10. Swapping the two query names exchanges \<open>team_a\<close> and \<open>team_b\<close> and changes
  nothing else: both calls fail with the same error or both succeed with the same
  \<open>higher_scoring_team\<close>.
\<close>
theorem compare_teams_swap:
  "compare_teams lower e qb qa =
     (case compare_teams lower e qa qb of
        Inl err \<Rightarrow> Inl err
      | Inr r \<Rightarrow>
          Inr \<lparr>team_a = team_b r, team_b = team_a r,
               higher_scoring_team = higher_scoring_team r\<rparr>)"
  by (simp add: compare_teams_def Let_def higher_swap [of lower] split: option.splits)

end
